theory Spec2Isabelle
  imports Complex_Main
begin

section \<open>Configuration (deriv\_full\_bot.py, lines 16--19)\<close>

definition PAIRS :: "string list" where
  "PAIRS = [''frxXAUUSD'', ''R_75'', ''R_75S'']"

definition TIMEFRAMES :: "int list" where
  "TIMEFRAMES = [1, 5, 10]"

definition CONFIDENCE_THRESHOLD :: nat where
  "CONFIDENCE_THRESHOLD = 5"

definition RATE_LIMIT_MINUTES :: real where
  "RATE_LIMIT_MINUTES = 25"

section \<open>Data model\<close>

text \<open>
  Prices are Python floats. They are modelled as real numbers: the finite floats are a
  subset of the reals and on them comparison, minimum and maximum are exact. NaN and
  the infinities are not part of the model. The one floating-point computation of the
  program, the regression slope, is a parameter of the model.
\<close>

text \<open>
  The exceptions the program can meet, all of them subclasses of \<^verbatim>\<open>Exception\<close>;
  \<open>TelegramError\<close> and \<open>WebSocketError\<close> stand for whatever the two network clients
  raise.
\<close>

datatype py_error = KeyError | ValueError | TypeError | OverflowError | TelegramError | WebSocketError

text \<open>One row of the data frame built at lines 135--139.\<close>

record candle =
  time :: real
  opn :: real
  high :: real
  low :: real
  close :: real

text \<open>
  A data frame is the list of its rows, oldest first. The only frame without columns in
  the program is the initial \<^verbatim>\<open>pd.DataFrame()\<close>, the empty list: selecting a column
  of it raises \<^verbatim>\<open>KeyError\<close>.
\<close>

type_synonym frame = "candle list"

datatype direction = LONG | SHORT

text \<open>The dictionary returned at lines 79 and 81.\<close>

record signal =
  sig_type :: direction
  entry :: real
  sl :: real
  tp :: real

section \<open>Library behaviour taken as a parameter\<close>

text \<open>
  What the program leaves to Python and its libraries, and what differs between their
  versions and platforms, is a parameter of the model:
  \<^item> \<open>float_of_str\<close> and \<open>int_of_str\<close> are \<^verbatim>\<open>float(s)\<close> and \<^verbatim>\<open>int(s)\<close> on a string,
    \<open>None\<close> where Python raises \<^verbatim>\<open>ValueError\<close>;
  \<^item> \<open>float_of_int\<close> is \<^verbatim>\<open>float(i)\<close> on an integer, the nearest float, \<open>None\<close> where
    Python raises \<^verbatim>\<open>OverflowError\<close>;
  \<^item> \<open>fmt_2f\<close> is the format \<^verbatim>\<open>:.2f\<close>;
  \<^item> \<open>timestamp_error\<close> is the exception \<^verbatim>\<open>datetime.fromtimestamp\<close> raises on an
    epoch, \<open>None\<close> where it returns;
  \<^item> \<open>regress_slope\<close> is the slope \<^verbatim>\<open>linregress\<close> computes, in floating point, from
    two arrays of the same length;
  \<^item> \<open>broadcasts_one\<close> tells whether \<^verbatim>\<open>linregress\<close> repeats a \<open>y\<close> of one element to
    the length of \<open>x\<close> (scipy from 1.16 on) or raises (scipy up to 1.15).
\<close>

record pylib =
  float_of_str :: "string \<Rightarrow> real option"
  int_of_str :: "string \<Rightarrow> int option"
  float_of_int :: "int \<Rightarrow> real option"
  fmt_2f :: "real \<Rightarrow> string"
  timestamp_error :: "real \<Rightarrow> py_error option"
  regress_slope :: "real list \<Rightarrow> real list \<Rightarrow> real"
  broadcasts_one :: bool

section \<open>pandas, numpy and scipy operations used by the detector\<close>

text \<open>\<^verbatim>\<open>Series.tail(n)\<close>: the last \<open>n\<close> rows, all of them when there are fewer.\<close>

definition tail :: "nat \<Rightarrow> 'a list \<Rightarrow> 'a list" where
  "tail n xs = drop (length xs - n) xs"

text \<open>\<^verbatim>\<open>df[col]\<close> on a frame: \<^verbatim>\<open>KeyError\<close> when the frame has no columns.\<close>

definition column :: "(candle \<Rightarrow> real) \<Rightarrow> frame \<Rightarrow> py_error + real list" where
  "column f df = (if df = [] then Inl KeyError else Inr (map f df))"

text \<open>\<^verbatim>\<open>df[col].iloc[-1]\<close>.\<close>

definition iloc_last :: "(candle \<Rightarrow> real) \<Rightarrow> frame \<Rightarrow> py_error + real" where
  "iloc_last f df = (if df = [] then Inl KeyError else Inr (f (last df)))"

definition arange :: "nat \<Rightarrow> real list" where
  "arange n = map real [0..<n]"

definition mean :: "real list \<Rightarrow> real" where
  "mean xs = sum_list xs / real (length xs)"

text \<open>
  The least-squares slope in exact arithmetic: the covariance of \<open>x\<close> and \<open>y\<close> over the
  variance of \<open>x\<close>, both normalised by the number of points. \<^verbatim>\<open>linregress\<close> computes
  it in floating point, so its result can differ from this one in the last digits, and
  in sign where this one is 0.
\<close>

definition least_squares_slope :: "real list \<Rightarrow> real list \<Rightarrow> real" where
  "least_squares_slope x y =
     (let xmean = mean x;
          ymean = mean y;
          ssxm = mean (map (\<lambda>a. (a - xmean) * (a - xmean)) x);
          ssxym = mean (map (\<lambda>(a, b). (a - xmean) * (b - ymean)) (zip x y))
      in ssxym / ssxm)"

text \<open>
  The slope of \<^verbatim>\<open>scipy.stats.linregress(x, y)\<close>. It raises \<^verbatim>\<open>ValueError\<close> on an
  empty input and on identical \<open>x\<close> values. When the two arrays differ in length it
  raises \<^verbatim>\<open>ValueError\<close> too, except that scipy from 1.16 on repeats a \<open>y\<close> of one
  element to the length of \<open>x\<close>.
\<close>

definition linregress :: "pylib \<Rightarrow> real list \<Rightarrow> real list \<Rightarrow> py_error + real" where
  "linregress L x y =
     (if x = [] \<or> y = [] then Inl ValueError
      else if Max (set x) = Min (set x) \<and> length x > 1 then Inl ValueError
      else if length y = length x then Inr (regress_slope L x y)
      else if broadcasts_one L \<and> length y = 1 then
        Inr (regress_slope L x (replicate (length x) (hd y)))
      else Inl ValueError)"

section \<open>Price action tools (lines 36--60)\<close>

definition calculate_support_resistance :: "frame \<Rightarrow> nat \<Rightarrow> py_error + real \<times> real" where
  "calculate_support_resistance df window =
     (case column low df of
        Inl e \<Rightarrow> Inl e
      | Inr lows \<Rightarrow>
          (case column high df of
             Inl e \<Rightarrow> Inl e
           | Inr highs \<Rightarrow> Inr (Min (set (tail window lows)), Max (set (tail window highs)))))"

definition identify_zones :: "frame \<Rightarrow> py_error + real \<times> real" where
  "identify_zones df =
     (case column low df of
        Inl e \<Rightarrow> Inl e
      | Inr lows \<Rightarrow>
          (case column high df of
             Inl e \<Rightarrow> Inl e
           | Inr highs \<Rightarrow> Inr (Min (set (tail 10 lows)), Max (set (tail 10 highs)))))"

definition detect_trendline :: "pylib \<Rightarrow> frame \<Rightarrow> py_error + real \<times> real" where
  "detect_trendline L df =
     (case column high df of
        Inl e \<Rightarrow> Inl e
      | Inr hs \<Rightarrow>
          (case column low df of
             Inl e \<Rightarrow> Inl e
           | Inr ls \<Rightarrow>
               (let highs = tail 10 hs; lows = tail 10 ls; x = arange 10
                in case linregress L x highs of
                     Inl e \<Rightarrow> Inl e
                   | Inr slope_high \<Rightarrow>
                       (case linregress L x lows of
                          Inl e \<Rightarrow> Inl e
                        | Inr slope_low \<Rightarrow> Inr (slope_high, slope_low)))))"

text \<open>
  Past the length guard the frame is not empty, so no column selection of
  \<^verbatim>\<open>detect_breakout\<close> and \<^verbatim>\<open>detect_head_shoulders\<close> can raise.
\<close>

definition detect_breakout :: "frame \<Rightarrow> string option" where
  "detect_breakout df =
     (if length df < 20 then None
      else
        let high10 = Max (set (tail 10 (map high df)));
            low10 = Min (set (tail 10 (map low df)))
        in if close (last df) > high10 then Some ''Breakout Up''
           else if close (last df) < low10 then Some ''Breakout Down''
           else None)"

definition detect_head_shoulders :: "frame \<Rightarrow> string option" where
  "detect_head_shoulders df =
     (if length df < 7 then None
      else
        let c = tail 7 (map close df)
        in if c ! 0 < c ! 2 \<and> c ! 2 > c ! 4 \<and> c ! 2 > c ! 0 \<and> c ! 2 > c ! 4
           then Some ''H&S pattern''
           else None)"

section \<open>The detector (lines 62--82)\<close>

text \<open>Lines 69--75: the score, from the values of the local variables.\<close>

definition score :: "real \<Rightarrow> real \<Rightarrow> real \<Rightarrow> string option \<Rightarrow> string option \<Rightarrow> real \<Rightarrow> real \<Rightarrow> nat" where
  "score c support resistance breakout hs_pattern slope_high slope_low =
     (if c > support then 1 else 0)
     + (if c < resistance then 1 else 0)
     + (if breakout \<noteq> None then 2 else 0)
     + (if hs_pattern \<noteq> None then 2 else 0)
     + (if slope_high > 0 then 1 else 0)
     + (if slope_low < 0 then 1 else 0)"

text \<open>Lines 77--82: the emission rule.\<close>

definition emit :: "nat \<Rightarrow> real \<Rightarrow> real \<Rightarrow> real \<Rightarrow> signal option" where
  "emit confidence c support resistance =
     (if confidence \<ge> CONFIDENCE_THRESHOLD then
        if c > resistance then
          Some \<lparr>sig_type = LONG, entry = c, sl = support, tp = resistance\<rparr>
        else if c < support then
          Some \<lparr>sig_type = SHORT, entry = c, sl = resistance, tp = support\<rparr>
        else None
      else None)"

definition combine_price_action_factors :: "pylib \<Rightarrow> frame \<Rightarrow> py_error + signal option" where
  "combine_price_action_factors L df =
     (case calculate_support_resistance df 20 of
        Inl e \<Rightarrow> Inl e
      | Inr (support, resistance) \<Rightarrow>
     (case identify_zones df of
        Inl e \<Rightarrow> Inl e
      | Inr (demand, supply) \<Rightarrow>
     (case detect_trendline L df of
        Inl e \<Rightarrow> Inl e
      | Inr (slope_high, slope_low) \<Rightarrow>
          (let breakout = detect_breakout df;
               hs_pattern = detect_head_shoulders df
           in case iloc_last close df of
                Inl e \<Rightarrow> Inl e
              | Inr c \<Rightarrow>
                  Inr (emit (score c support resistance breakout hs_pattern slope_high slope_low)
                         c support resistance)))))"

text \<open>
  The values of the local variables \<^verbatim>\<open>support\<close>, \<^verbatim>\<open>resistance\<close> and
  \<^verbatim>\<open>confidence\<close> of \<^verbatim>\<open>combine_price_action_factors\<close> when line 77 is reached;
  an error when the function raises before.
\<close>

definition support_of :: "frame \<Rightarrow> real" where
  "support_of df = Min (set (tail 20 (map low df)))"

definition resistance_of :: "frame \<Rightarrow> real" where
  "resistance_of df = Max (set (tail 20 (map high df)))"

definition confidence :: "pylib \<Rightarrow> frame \<Rightarrow> py_error + nat" where
  "confidence L df =
     (case calculate_support_resistance df 20 of
        Inl e \<Rightarrow> Inl e
      | Inr (support, resistance) \<Rightarrow>
     (case identify_zones df of
        Inl e \<Rightarrow> Inl e
      | Inr (demand, supply) \<Rightarrow>
     (case detect_trendline L df of
        Inl e \<Rightarrow> Inl e
      | Inr (slope_high, slope_low) \<Rightarrow>
     (case iloc_last close df of
        Inl e \<Rightarrow> Inl e
      | Inr c \<Rightarrow>
          Inr (score c support resistance (detect_breakout df) (detect_head_shoulders df)
                 slope_high slope_low)))))"

section \<open>The alert gate (lines 85--98)\<close>

text \<open>What the handlers do to the outside world, in order.\<close>

datatype action =
    LogInfo
  | LogWarning
  | LogError py_error
  | Sleep nat
  | SendAuthorize
  | SendSubscribe string int
  | TelegramConnected
  | Detect string int
  | TelegramAlert string int signal

text \<open>
  The fields of \<^verbatim>\<open>FullBrainBot\<close>. \<open>ws\<close> counts the \<^verbatim>\<open>WebSocketApp\<close> objects created
  so far (\<^verbatim>\<open>self.ws\<close> is the latest, \<open>0\<close> stands for \<^verbatim>\<open>None\<close>); \<open>data\<close> is the nested
  dictionary, keyed by pair and timeframe; a \<^verbatim>\<open>datetime\<close> is its number of
  microseconds.
\<close>

record bot =
  ws :: nat
  active :: bool
  data :: "string \<times> int \<rightharpoonup> frame"
  sent_signals :: "string \<rightharpoonup> int"
  connected_sent :: bool

definition init :: bot where
  "init = \<lparr>ws = 0, active = True,
           data = (\<lambda>(pair, tf). if pair \<in> set PAIRS \<and> tf \<in> set TIMEFRAMES then Some [] else None),
           sent_signals = Map.empty, connected_sent = False\<rparr>"

definition digit_char :: "nat \<Rightarrow> char" where
  "digit_char n = ''0123456789'' ! n"

fun digits :: "nat \<Rightarrow> string" where
  "digits n = (if n < 10 then [digit_char n] else digits (n div 10) @ [digit_char (n mod 10)])"

declare digits.simps [simp del]

text \<open>\<^verbatim>\<open>str(i)\<close> of an integer.\<close>

definition str_of_int :: "int \<Rightarrow> string" where
  "str_of_int i = (if i < 0 then CHR ''-'' # digits (nat (- i)) else digits (nat i))"

definition type_str :: "direction \<Rightarrow> string" where
  "type_str d = (case d of LONG \<Rightarrow> ''LONG'' | SHORT \<Rightarrow> ''SHORT'')"

text \<open>Line 86.\<close>

definition dedup_key :: "pylib \<Rightarrow> string \<Rightarrow> int \<Rightarrow> signal \<Rightarrow> string" where
  "dedup_key L pair tf s =
     pair @ ''_'' @ str_of_int tf @ ''_'' @ type_str (sig_type s) @ ''_'' @ fmt_2f L (entry s)"

text \<open>
  \<^verbatim>\<open>timedelta.seconds\<close> of a difference of \<open>d\<close> microseconds: the seconds left once the
  whole days are taken out, between 0 and 86399.
\<close>

definition timedelta_seconds :: "int \<Rightarrow> int" where
  "timedelta_seconds d = (d div 1000000) mod 86400"

text \<open>
  \<open>now\<close> is the clock read by \<^verbatim>\<open>datetime.now()\<close> (the reads of one call are taken
  as one instant) and \<open>tg_ok\<close> tells whether \<^verbatim>\<open>bot.send_message\<close> returns or raises.
\<close>

definition send_alert :: "pylib \<Rightarrow> int \<Rightarrow> bool \<Rightarrow> bot \<Rightarrow> string \<Rightarrow> int \<Rightarrow> signal \<Rightarrow> bot \<times> action list" where
  "send_alert L now tg_ok st pair tf s =
     (let key = dedup_key L pair tf s;
          limited =
            (case sent_signals st key of
               None \<Rightarrow> False
             | Some t \<Rightarrow> real_of_int (timedelta_seconds (now - t)) / 60 < RATE_LIMIT_MINUTES)
      in if limited then (st, [])
         else
           (st\<lparr>sent_signals := (sent_signals st)(key \<mapsto> now)\<rparr>,
            if tg_ok then [TelegramAlert pair tf s]
            else [TelegramAlert pair tf s, LogError TelegramError]))"

section \<open>Feed events (lines 128--144)\<close>

text \<open>The values \<^verbatim>\<open>json.loads\<close> returns.\<close>

datatype json =
    JNull
  | JBool bool
  | JInt int
  | JFloat real
  | JStr string
  | JArr "json list"
  | JObj "(string \<times> json) list"

fun contains_str :: "string \<Rightarrow> string \<Rightarrow> bool" where
  "contains_str [] sub = (sub = [])"
| "contains_str (c # cs) sub = (take (length sub) (c # cs) = sub \<or> contains_str cs sub)"

text \<open>\<^verbatim>\<open>k in v\<close> for a string \<open>k\<close>.\<close>

definition py_in :: "string \<Rightarrow> json \<Rightarrow> py_error + bool" where
  "py_in k v =
     (case v of
        JObj kvs \<Rightarrow> Inr (k \<in> fst ` set kvs)
      | JArr xs \<Rightarrow> Inr (JStr k \<in> set xs)
      | JStr s \<Rightarrow> Inr (contains_str s k)
      | _ \<Rightarrow> Inl TypeError)"

text \<open>\<^verbatim>\<open>v[k]\<close> for a string \<open>k\<close>; of a repeated key \<^verbatim>\<open>json.loads\<close> keeps the last value.\<close>

definition subscript :: "json \<Rightarrow> string \<Rightarrow> py_error + json" where
  "subscript v k =
     (case v of
        JObj kvs \<Rightarrow> (case map_of (rev kvs) k of None \<Rightarrow> Inl KeyError | Some x \<Rightarrow> Inr x)
      | _ \<Rightarrow> Inl TypeError)"

text \<open>
  \<^verbatim>\<open>float(v)\<close>. The result is a real number: the strings and literals Python reads as
  NaN or an infinity have no value in the model.
\<close>

definition py_float :: "pylib \<Rightarrow> json \<Rightarrow> py_error + real" where
  "py_float L v =
     (case v of
        JInt i \<Rightarrow> (case float_of_int L i of None \<Rightarrow> Inl OverflowError | Some r \<Rightarrow> Inr r)
      | JFloat r \<Rightarrow> Inr r
      | JBool b \<Rightarrow> Inr (if b then 1 else 0)
      | JStr s \<Rightarrow> (case float_of_str L s of None \<Rightarrow> Inl ValueError | Some r \<Rightarrow> Inr r)
      | _ \<Rightarrow> Inl TypeError)"

text \<open>\<^verbatim>\<open>int(v)\<close>; a float is truncated towards zero.\<close>

definition py_int :: "pylib \<Rightarrow> json \<Rightarrow> py_error + int" where
  "py_int L v =
     (case v of
        JInt i \<Rightarrow> Inr i
      | JFloat r \<Rightarrow> Inr (if r \<ge> 0 then \<lfloor>r\<rfloor> else \<lceil>r\<rceil>)
      | JBool b \<Rightarrow> Inr (if b then 1 else 0)
      | JStr s \<Rightarrow> (case int_of_str L s of None \<Rightarrow> Inl ValueError | Some i \<Rightarrow> Inr i)
      | _ \<Rightarrow> Inl TypeError)"

text \<open>\<^verbatim>\<open>datetime.fromtimestamp(v)\<close>, as the epoch it denotes.\<close>

definition fromtimestamp :: "pylib \<Rightarrow> json \<Rightarrow> py_error + real" where
  "fromtimestamp L v =
     (let check = (\<lambda>r. case timestamp_error L r of None \<Rightarrow> Inr r | Some e \<Rightarrow> Inl e)
      in case v of
           JInt i \<Rightarrow> check (real_of_int i)
         | JFloat r \<Rightarrow> check r
         | JBool b \<Rightarrow> check (if b then 1 else 0)
         | _ \<Rightarrow> Inl TypeError)"

text \<open>One entry of the dictionary literal at lines 135--139: look the field up, convert it.\<close>

definition field :: "(json \<Rightarrow> py_error + real) \<Rightarrow> json \<Rightarrow> string \<Rightarrow> py_error + real" where
  "field conv ohlc k = (case subscript ohlc k of Inl e \<Rightarrow> Inl e | Inr v \<Rightarrow> conv v)"

text \<open>Lines 135--139, the entries evaluated in the order they are written.\<close>

definition new_candle :: "pylib \<Rightarrow> json \<Rightarrow> py_error + candle" where
  "new_candle L ohlc =
     (case field (fromtimestamp L) ohlc ''epoch'' of Inl e \<Rightarrow> Inl e | Inr t \<Rightarrow>
     (case field (py_float L) ohlc ''open'' of Inl e \<Rightarrow> Inl e | Inr op \<Rightarrow>
     (case field (py_float L) ohlc ''high'' of Inl e \<Rightarrow> Inl e | Inr h \<Rightarrow>
     (case field (py_float L) ohlc ''low'' of Inl e \<Rightarrow> Inl e | Inr l \<Rightarrow>
     (case field (py_float L) ohlc ''close'' of Inl e \<Rightarrow> Inl e | Inr c \<Rightarrow>
        Inr \<lparr>time = t, opn = op, high = h, low = l, close = c\<rparr>)))))"

text \<open>
  Lines 130--139, up to the candle: an error where a line raises, \<open>None\<close> at the two
  early returns, otherwise the series key and the new row.
\<close>

definition normalizer :: "pylib \<Rightarrow> py_error + json \<Rightarrow> py_error + (string \<times> int \<times> candle) option" where
  "normalizer L message =
     (case message of Inl e \<Rightarrow> Inl e | Inr d \<Rightarrow>
     (case py_in ''ohlc'' d of Inl e \<Rightarrow> Inl e | Inr present \<Rightarrow>
        if \<not> present then Inr None else
     (case subscript d ''ohlc'' of Inl e \<Rightarrow> Inl e | Inr ohlc \<Rightarrow>
     (case subscript ohlc ''symbol'' of Inl e \<Rightarrow> Inl e | Inr pair \<Rightarrow>
     (case subscript ohlc ''granularity'' of Inl e \<Rightarrow> Inl e | Inr g \<Rightarrow>
     (case py_int L g of Inl e \<Rightarrow> Inl e | Inr gi \<Rightarrow>
        let tf = gi div 60 in
        if tf \<notin> set TIMEFRAMES \<or> pair \<notin> set (map JStr PAIRS) then Inr None else
     (case new_candle L ohlc of Inl e \<Rightarrow> Inl e | Inr row \<Rightarrow>
     (case pair of JStr p \<Rightarrow> Inr (Some (p, tf, row)) | _ \<Rightarrow> Inl TypeError))))))))"

text \<open>Line 140: \<^verbatim>\<open>pd.concat([series, new_candle]).tail(100)\<close>.\<close>

definition concat_tail :: "frame \<Rightarrow> candle \<Rightarrow> frame" where
  "concat_tail df row = tail 100 (df @ [row])"

text \<open>
  The body of the \<^verbatim>\<open>try\<close>: the exception that leaves it (if any), the state and the
  actions at that point. The series is stored at line 140, before the detector runs.
\<close>

definition on_message_try :: "pylib \<Rightarrow> int \<Rightarrow> bool \<Rightarrow> bot \<Rightarrow> py_error + json \<Rightarrow> py_error option \<times> bot \<times> action list" where
  "on_message_try L now tg_ok st message =
     (case normalizer L message of
        Inl e \<Rightarrow> (Some e, st, [])
      | Inr None \<Rightarrow> (None, st, [])
      | Inr (Some (pair, tf, row)) \<Rightarrow>
          (case data st (pair, tf) of
             None \<Rightarrow> (Some KeyError, st, [])
           | Some df \<Rightarrow>
               (let df' = concat_tail df row;
                    st' = st\<lparr>data := (data st)((pair, tf) \<mapsto> df')\<rparr>
                in case combine_price_action_factors L df' of
                     Inl e \<Rightarrow> (Some e, st', [Detect pair tf])
                   | Inr None \<Rightarrow> (None, st', [Detect pair tf])
                   | Inr (Some s) \<Rightarrow>
                       (let (st'', acts) = send_alert L now tg_ok st' pair tf s
                        in (None, st'', Detect pair tf # acts)))))"

text \<open>
  Lines 143--144: every exception of the body is an \<^verbatim>\<open>Exception\<close>, is logged and goes
  no further.
\<close>

definition on_message :: "pylib \<Rightarrow> int \<Rightarrow> bool \<Rightarrow> bot \<Rightarrow> py_error + json \<Rightarrow> bot \<times> action list" where
  "on_message L now tg_ok st message =
     (case on_message_try L now tg_ok st message of
        (None, st', acts) \<Rightarrow> (st', acts)
      | (Some e, st', acts) \<Rightarrow> (st', acts @ [LogError e]))"

section \<open>Connection life cycle (lines 101--126 and 146--151)\<close>

definition on_error :: "bot \<Rightarrow> bot \<times> action list" where
  "on_error st = (st, [LogWarning])"

definition on_close :: "bot \<Rightarrow> bot \<times> action list" where
  "on_close st = (st, [LogInfo, Sleep 5])"

text \<open>The subscription requests of lines 120--126, in the order they are sent.\<close>

definition subscriptions :: "(string \<times> int) list" where
  "subscriptions = concat (map (\<lambda>pair. map (\<lambda>tf. (pair, tf)) TIMEFRAMES) PAIRS)"

text \<open>
  \<open>ws_ok k\<close> tells whether the \<open>k\<close>-th \<^verbatim>\<open>ws.send\<close> of the call returns (the
  authorisation is number 0), \<open>tg_ok\<close> whether \<^verbatim>\<open>bot.send_message\<close> does. An exception
  leaves the handler at the call that raises.
\<close>

fun send_all :: "(nat \<Rightarrow> bool) \<Rightarrow> nat \<Rightarrow> (string \<times> int) list \<Rightarrow> py_error option \<times> action list" where
  "send_all ws_ok k [] = (None, [])"
| "send_all ws_ok k ((pair, tf) # rest) =
     (if ws_ok k then
        (let (r, acts) = send_all ws_ok (Suc k) rest in (r, SendSubscribe pair tf # acts))
      else (Some WebSocketError, []))"

definition on_open :: "bot \<Rightarrow> (nat \<Rightarrow> bool) \<Rightarrow> bool \<Rightarrow> py_error option \<times> bot \<times> action list" where
  "on_open st ws_ok tg_ok =
     (if \<not> ws_ok 0 then (Some WebSocketError, st, [LogInfo])
      else if \<not> connected_sent st \<and> \<not> tg_ok then (Some TelegramError, st, [LogInfo, SendAuthorize])
      else
        let greet = (if connected_sent st then [] else [TelegramConnected]);
            st' = st\<lparr>connected_sent := True\<rparr>;
            (r, acts) = send_all ws_ok 1 (map (\<lambda>(pair, tf). (pair, tf * 60)) subscriptions)
        in (r, st', [LogInfo, SendAuthorize] @ greet @ acts))"

text \<open>What the transport hands to the callbacks, with the outcome of the calls they make.\<close>

datatype ws_event =
    EvOpen "nat \<Rightarrow> bool" bool
  | EvMessage "py_error + json" int bool
  | EvError
  | EvClose

fun is_message :: "ws_event \<Rightarrow> bool" where
  "is_message (EvMessage m now tg_ok) = True"
| "is_message ev = False"

text \<open>
  \<^verbatim>\<open>WebSocketApp\<close> runs each callback and passes an exception that leaves it to
  \<^verbatim>\<open>on_error\<close>.
\<close>

definition dispatch :: "pylib \<Rightarrow> bot \<Rightarrow> ws_event \<Rightarrow> bot \<times> action list" where
  "dispatch L st ev =
     (case ev of
        EvOpen ws_ok tg_ok \<Rightarrow>
          (case on_open st ws_ok tg_ok of
             (None, st', acts) \<Rightarrow> (st', acts)
           | (Some e, st', acts) \<Rightarrow> (let (st'', acts') = on_error st' in (st'', acts @ acts')))
      | EvMessage m now tg_ok \<Rightarrow> on_message L now tg_ok st m
      | EvError \<Rightarrow> on_error st
      | EvClose \<Rightarrow> on_close st)"

text \<open>\<^verbatim>\<open>run_forever\<close> on the events of one connection.\<close>

fun run_forever :: "pylib \<Rightarrow> bot \<Rightarrow> ws_event list \<Rightarrow> bot \<times> action list" where
  "run_forever L st [] = (st, [])"
| "run_forever L st (ev # evs) =
     (let (st', acts) = dispatch L st ev;
          (st'', acts') = run_forever L st' evs
      in (st'', acts @ acts'))"

text \<open>
  Lines 101--112. The loop never ends while \<^verbatim>\<open>self.active\<close> holds; the model gives the
  state after the connections made so far, each with its events and whether
  \<^verbatim>\<open>run_forever\<close> ended by an exception.
\<close>

fun ws_thread :: "pylib \<Rightarrow> bot \<Rightarrow> (ws_event list \<times> bool) list \<Rightarrow> bot \<times> action list" where
  "ws_thread L st [] = (st, [])"
| "ws_thread L st ((evs, crashed) # rest) =
     (if active st then
        (let (st', acts) = run_forever L (st\<lparr>ws := Suc (ws st)\<rparr>) evs;
             acts' = (if crashed then [LogError WebSocketError, Sleep 5] else []);
             (st'', acts'') = ws_thread L st' rest
         in (st'', acts @ acts' @ acts''))
      else (st, []))"

section \<open>Sample inputs\<close>

text \<open>A row with the given high, low and close.\<close>

definition row :: "real \<Rightarrow> real \<Rightarrow> real \<Rightarrow> candle" where
  "row h l c = \<lparr>time = 0, opn = c, high = h, low = l, close = c\<rparr>"

text \<open>
  Ten rows with rising highs and falling lows, a peak in the closes three rows before the
  end, and the last close \<open>c\<close>: support is 100 and resistance is 130.
\<close>

definition window_rising :: "real \<Rightarrow> frame" where
  "window_rising c =
     [row 121 109 110, row 122 108 110, row 123 107 110, row 124 106 110, row 125 105 110,
      row 126 104 115, row 127 103 110, row 128 102 110, row 129 101 110, row 130 100 c]"

text \<open>Ten rows whose lows lie above their highs.\<close>

definition window_crossed :: frame where
  "window_crossed =
     [row 1 20 1, row 2 19 1, row 3 18 1, row 4 17 1, row 5 16 1,
      row 6 15 2, row 7 14 1, row 8 13 1, row 9 12 1, row 10 11 12]"

text \<open>
  A library instance. The strings the samples use are read from a table; an integer
  is rounded to 53 significant bits; \<open>fmt_2f\<close> rounds to the nearest hundredth, a tie to
  the even one; an epoch is refused from \<open>2 ^ 63\<close> on and outside the years 1 to 9999;
  the slope is the exact one; and a \<open>y\<close> of one element is not repeated.
\<close>

fun bit_length :: "nat \<Rightarrow> nat" where
  "bit_length n = (if n = 0 then 0 else Suc (bit_length (n div 2)))"

declare bit_length.simps [simp del]

definition round_half_even :: "real \<Rightarrow> int" where
  "round_half_even a =
     (let f = \<lfloor>a\<rfloor>; d = a - real_of_int f
      in if d < 1 / 2 then f else if d > 1 / 2 then f + 1 else if even f then f else f + 1)"

text \<open>
  The float nearest to an integer: 53 significant bits, a tie to the even one, and none
  from \<open>2 ^ 1024\<close> on.
\<close>

definition nearest_float :: "int \<Rightarrow> real option" where
  "nearest_float i =
     (let a = \<bar>i\<bar>;
          ulp = 2 ^ (bit_length (nat a) - 53);
          m = round_half_even (real_of_int a / real_of_int ulp) * ulp
      in if bit_length (nat m) > 1024 then None else Some (real_of_int (sgn i * m)))"

definition digits2 :: "int \<Rightarrow> string" where
  "digits2 h = [digit_char (nat (h div 10)), digit_char (nat (h mod 10))]"

definition sample_lib :: pylib where
  "sample_lib =
     \<lparr>float_of_str = map_of [(''100.0'', 100), (''110.0'', 110), (''130.0'', 130), (''132.0'', 132)],
      int_of_str = map_of [(''60'', 60), (''300'', 300), (''600'', 600)],
      float_of_int = nearest_float,
      fmt_2f = (\<lambda>r. let h = round_half_even (\<bar>r\<bar> * 100)
                    in (if r < 0 then ''-'' else []) @ str_of_int (h div 100) @ ''.'' @ digits2 (h mod 100)),
      timestamp_error = (\<lambda>r. if \<bar>r\<bar> \<ge> 2 ^ 63 then Some OverflowError
                             else if r < - 62135596800 \<or> r \<ge> 253402300800 then Some ValueError
                             else None),
      regress_slope = least_squares_slope,
      broadcasts_one = False\<rparr>"

definition sample_signal :: signal where
  "sample_signal = \<lparr>sig_type = LONG, entry = 132, sl = 100, tp = 130\<rparr>"

text \<open>An instant, in microseconds.\<close>

definition t0 :: int where
  "t0 = 1700000000000000"

text \<open>The state after a first alert for \<open>sample_signal\<close> at \<open>t0\<close>.\<close>

definition st_sent :: bot where
  "st_sent = fst (send_alert sample_lib t0 True init ''frxXAUUSD'' 5 sample_signal)"

text \<open>
  A parsed feed event for the given symbol and granularity, its \<^verbatim>\<open>close\<close> field the
  given value.
\<close>

definition ohlc_event :: "string \<Rightarrow> int \<Rightarrow> json \<Rightarrow> py_error + json" where
  "ohlc_event symbol granularity c =
     Inr (JObj [(''ohlc'', JObj [(''symbol'', JStr symbol), (''granularity'', JInt granularity),
                                (''epoch'', JInt 1700000000), (''open'', JStr ''110.0''),
                                (''high'', JStr ''130.0''), (''low'', JStr ''100.0''),
                                (''close'', c)])])"

text \<open>A state that holds ten rows for one series.\<close>

definition st_history :: bot where
  "st_history = init\<lparr>data := (data init)((''R_75'', 1) \<mapsto> window_rising 110)\<rparr>"

text \<open>
  Two connections without a message: one opened, hit by an error and closed; one whose
  third \<^verbatim>\<open>ws.send\<close> fails and whose \<^verbatim>\<open>run_forever\<close> ends by an exception.
\<close>

definition sample_sessions :: "(ws_event list \<times> bool) list" where
  "sample_sessions =
     [([EvOpen (\<lambda>k. True) True, EvError, EvClose], False),
      ([EvOpen (\<lambda>k. k < 3) False, EvClose], True)]"

section \<open>Predicates of the specification\<close>



text \<open>Every stored series holds at most 100 rows.\<close>

definition bounded :: "bot \<Rightarrow> bool" where
  "bounded st = (\<forall>k df. data st k = Some df \<longrightarrow> length df \<le> 100)"

section \<open>Facts about the library operations\<close>

lemma length_tail: "length (tail n xs) = min n (length xs)"
  by (simp add: tail_def)

lemma tail_map: "tail n (map f xs) = map f (tail n xs)"
  by (simp add: tail_def drop_map)

lemma tail_nth: "n \<le> length xs \<Longrightarrow> i < n \<Longrightarrow> tail n xs ! i = xs ! (length xs - n + i)"
  by (simp add: tail_def)

lemma linregress_length_mismatch:
  "length y \<noteq> length x \<Longrightarrow> length y \<noteq> 1 \<Longrightarrow> linregress L x y = Inl ValueError"
  by (simp add: linregress_def)

lemma linregress_one_element:
  "length y = 1 \<Longrightarrow> length x \<noteq> 1 \<Longrightarrow> \<not> broadcasts_one L \<Longrightarrow> linregress L x y = Inl ValueError"
  by (simp add: linregress_def)

lemma length_arange: "length (arange n) = n"
  by (simp add: arange_def)

lemma arange_10: "arange 10 = [0, 1, 2, 3, 4, 5, 6, 7, 8, 9]"
  by code_simp

lemma linregress_arange_10:
  assumes "length y = 10"
  shows "\<exists>r. linregress L (arange 10) y = Inr r"
proof -
  have "Max (set (arange 10)) \<noteq> Min (set (arange 10))"
    by (simp add: arange_10)
  moreover have "y \<noteq> []" using assms by auto
  moreover have "arange 10 \<noteq> []" by (simp add: arange_10)
  ultimately show ?thesis using assms
    by (simp add: linregress_def length_arange Let_def)
qed

section \<open>The detector\<close>

lemma combine_by_confidence:
  "combine_price_action_factors L df =
     (case confidence L df of
        Inl e \<Rightarrow> Inl e
      | Inr k \<Rightarrow> Inr (emit k (close (last df)) (support_of df) (resistance_of df)))"
  by (auto simp: combine_price_action_factors_def confidence_def calculate_support_resistance_def
        support_of_def resistance_of_def column_def iloc_last_def Let_def
      split: sum.splits prod.splits)

lemma emit_Some:
  "emit k c lo hi = Some s \<longleftrightarrow>
     k \<ge> CONFIDENCE_THRESHOLD \<and>
     (c > hi \<and> s = \<lparr>sig_type = LONG, entry = c, sl = lo, tp = hi\<rparr>
      \<or> \<not> c > hi \<and> c < lo \<and> s = \<lparr>sig_type = SHORT, entry = c, sl = hi, tp = lo\<rparr>)"
  by (auto simp: emit_def)

lemma window_rising_long:
  "combine_price_action_factors sample_lib (window_rising 132)
     = Inr (Some \<lparr>sig_type = LONG, entry = 132, sl = 100, tp = 130\<rparr>)"
  "confidence sample_lib (window_rising 132) = Inr 5"
  "support_of (window_rising 132) = 100" "resistance_of (window_rising 132) = 130"
  "close (last (window_rising 132)) = 132"
  by code_simp+

lemma window_rising_short:
  "combine_price_action_factors sample_lib (window_rising 68)
     = Inr (Some \<lparr>sig_type = SHORT, entry = 68, sl = 130, tp = 100\<rparr>)"
  "confidence sample_lib (window_rising 68) = Inr 5"
  "support_of (window_rising 68) = 100" "resistance_of (window_rising 68) = 130"
  "close (last (window_rising 68)) = 68"
  by code_simp+

lemma window_rising_inside:
  "combine_price_action_factors sample_lib (window_rising 110) = Inr None"
  "confidence sample_lib (window_rising 110) = Inr 6"
  "support_of (window_rising 110) = 100" "resistance_of (window_rising 110) = 130"
  "close (last (window_rising 110)) = 110"
  by code_simp+

text \<open>
  C1. A LONG signal is returned only when the confidence reaches the threshold and the
  latest close is above the resistance, and then its entry is the latest close, its stop
  the support and its target the resistance. A SHORT signal is returned only when the
  confidence reaches the threshold and the latest close is below the support, with entry
  the latest close, stop the resistance and target the support. In every other case no
  signal is returned; in particular none is when the confidence reaches the threshold
  and the close lies between support and resistance.
\<close>

theorem detector_emission_rule:
  "(combine_price_action_factors L df = Inr (Some s) \<and> sig_type s = LONG \<longrightarrow>
      (\<exists>k. confidence L df = Inr k \<and> k \<ge> CONFIDENCE_THRESHOLD)
      \<and> close (last df) > resistance_of df
      \<and> entry s = close (last df) \<and> sl s = support_of df \<and> tp s = resistance_of df)
   \<and> (combine_price_action_factors L df = Inr (Some s) \<and> sig_type s = SHORT \<longrightarrow>
      (\<exists>k. confidence L df = Inr k \<and> k \<ge> CONFIDENCE_THRESHOLD)
      \<and> close (last df) < support_of df
      \<and> entry s = close (last df) \<and> sl s = resistance_of df \<and> tp s = support_of df)
   \<and> (\<not> ((\<exists>k. confidence L df = Inr k \<and> k \<ge> CONFIDENCE_THRESHOLD)
           \<and> (close (last df) > resistance_of df \<or> close (last df) < support_of df)) \<longrightarrow>
      (\<forall>s'. combine_price_action_factors L df \<noteq> Inr (Some s')))
   \<and> (\<forall>k. confidence L df = Inr k \<and> k \<ge> CONFIDENCE_THRESHOLD
           \<and> support_of df \<le> close (last df) \<and> close (last df) \<le> resistance_of df \<longrightarrow>
      combine_price_action_factors L df = Inr None)"
proof (cases "confidence L df")
  case (Inl e)
  then show ?thesis by (simp add: combine_by_confidence)
next
  case (Inr k)
  then have c: "combine_price_action_factors L df
      = Inr (emit k (close (last df)) (support_of df) (resistance_of df))"
    by (simp add: combine_by_confidence)
  show ?thesis
    unfolding c using Inr by (auto simp: emit_Some) (auto simp: emit_def)
qed

theorem detector_emission_rule_witness:
  "combine_price_action_factors sample_lib (window_rising 132)
     = Inr (Some \<lparr>sig_type = LONG, entry = 132, sl = 100, tp = 130\<rparr>)
   \<and> confidence sample_lib (window_rising 132) = Inr 5
   \<and> close (last (window_rising 132)) > resistance_of (window_rising 132)
   \<and> combine_price_action_factors sample_lib (window_rising 68)
     = Inr (Some \<lparr>sig_type = SHORT, entry = 68, sl = 130, tp = 100\<rparr>)
   \<and> confidence sample_lib (window_rising 68) = Inr 5
   \<and> close (last (window_rising 68)) < support_of (window_rising 68)
   \<and> confidence sample_lib (window_rising 110) = Inr 6
   \<and> support_of (window_rising 110) \<le> close (last (window_rising 110))
   \<and> close (last (window_rising 110)) \<le> resistance_of (window_rising 110)
   \<and> combine_price_action_factors sample_lib (window_rising 110) = Inr None"
  using detector_emission_rule [of sample_lib "window_rising 132" "\<lparr>sig_type = LONG, entry = 132, sl = 100, tp = 130\<rparr>"]
    detector_emission_rule [of sample_lib "window_rising 68" "\<lparr>sig_type = SHORT, entry = 68, sl = 130, tp = 100\<rparr>"]
    detector_emission_rule [of sample_lib "window_rising 110" "\<lparr>sig_type = LONG, entry = 132, sl = 100, tp = 130\<rparr>"]
  by (simp add: window_rising_long window_rising_short window_rising_inside CONFIDENCE_THRESHOLD_def)

text \<open>
  C7. On a window of at least seven rows, with \<open>c i\<close> the \<open>i\<close>-th of the last seven
  closes, the head-and-shoulders pattern is reported exactly when
  \<open>c 0 < c 2\<close>, \<open>c 2 > c 4\<close>, \<open>c 2 > c 0\<close> and \<open>c 2 > c 4\<close> hold, and these four
  conditions are equivalent to the first two.
\<close>

theorem head_shoulders_condition:
  assumes "length df \<ge> 7"
  shows "let c = (\<lambda>i. close (df ! (length df - 7 + i))) in
     (detect_head_shoulders df = Some ''H&S pattern'' \<longleftrightarrow>
        c 0 < c 2 \<and> c 2 > c 4 \<and> c 2 > c 0 \<and> c 2 > c 4)
     \<and> (detect_head_shoulders df = None \<longleftrightarrow>
        \<not> (c 0 < c 2 \<and> c 2 > c 4 \<and> c 2 > c 0 \<and> c 2 > c 4))
     \<and> ((c 0 < c 2 \<and> c 2 > c 4 \<and> c 2 > c 0 \<and> c 2 > c 4) \<longleftrightarrow> (c 0 < c 2 \<and> c 2 > c 4))"
proof -
  define c where "c = (\<lambda>i. close (df ! (length df - 7 + i)))"
  have nth: "tail 7 (map close df) ! i = c i" if "i < 7" for i
    using assms that by (simp add: tail_nth c_def)
  have "tail 7 (map close df) ! 0 = c 0" "tail 7 (map close df) ! 2 = c 2"
    "tail 7 (map close df) ! 4 = c 4"
    by (rule nth, simp)+
  then have det: "detect_head_shoulders df =
      (if c 0 < c 2 \<and> c 2 > c 4 \<and> c 2 > c 0 \<and> c 2 > c 4 then Some ''H&S pattern'' else None)"
    using assms by (simp add: detect_head_shoulders_def Let_def)
  have "(detect_head_shoulders df = Some ''H&S pattern'' \<longleftrightarrow>
        c 0 < c 2 \<and> c 2 > c 4 \<and> c 2 > c 0 \<and> c 2 > c 4)
     \<and> (detect_head_shoulders df = None \<longleftrightarrow>
        \<not> (c 0 < c 2 \<and> c 2 > c 4 \<and> c 2 > c 0 \<and> c 2 > c 4))
     \<and> ((c 0 < c 2 \<and> c 2 > c 4 \<and> c 2 > c 0 \<and> c 2 > c 4) \<longleftrightarrow> (c 0 < c 2 \<and> c 2 > c 4))"
    unfolding det by auto
  then show ?thesis unfolding c_def Let_def .
qed

theorem head_shoulders_condition_witness:
  "length (window_rising 132) \<ge> 7
   \<and> detect_head_shoulders (window_rising 132) = Some ''H&S pattern''
   \<and> close (window_rising 132 ! 3) < close (window_rising 132 ! 5)
   \<and> close (window_rising 132 ! 5) > close (window_rising 132 ! 7)"
proof -
  have len: "length (window_rising 132) \<ge> 7"
    by (simp add: window_rising_def)
  show ?thesis
    using head_shoulders_condition [OF len] len
    by (simp add: Let_def window_rising_def row_def)
qed

lemma detect_trendline_short:
  assumes "2 \<le> length df" "length df < 10"
  shows "detect_trendline L df = Inl ValueError"
proof -
  have "length (tail 10 (map high df)) \<noteq> length (arange 10)"
    "length (tail 10 (map high df)) \<noteq> 1"
    using assms by (simp_all add: length_tail length_arange)
  then have "linregress L (arange 10) (tail 10 (map high df)) = Inl ValueError"
    by (metis linregress_length_mismatch)
  moreover have "df \<noteq> []" using assms by auto
  ultimately show ?thesis by (simp add: detect_trendline_def column_def Let_def)
qed

text \<open>
  On a window of two to nine rows the regression gets ten abscissae and fewer ordinates,
  and the detector raises instead of returning, whatever the library version.
\<close>

lemma combine_short:
  assumes "2 \<le> length df" "length df < 10"
  shows "combine_price_action_factors L df = Inl ValueError" "confidence L df = Inl ValueError"
proof -
  have "df \<noteq> []" using assms by auto
  then show "combine_price_action_factors L df = Inl ValueError" "confidence L df = Inl ValueError"
    using detect_trendline_short [OF assms, of L]
    by (simp_all add: combine_price_action_factors_def confidence_def
        calculate_support_resistance_def identify_zones_def column_def)
qed

text \<open>
  On a window of one row the outcome depends on the library: where a \<open>y\<close> of one element
  is repeated the detector returns, elsewhere it raises.
\<close>

lemma combine_one_row:
  assumes "length df = 1"
  shows "\<not> broadcasts_one L \<Longrightarrow> combine_price_action_factors L df = Inl ValueError"
    and "broadcasts_one L \<Longrightarrow> \<exists>r. combine_price_action_factors L df = Inr r"
proof -
  have ne: "df \<noteq> []" using assms by auto
  have len: "length (tail 10 (map high df)) = 1" "length (tail 10 (map low df)) = 1"
    using assms by (simp_all add: length_tail)
  have x: "arange 10 \<noteq> []" "Max (set (arange 10)) \<noteq> Min (set (arange 10))"
    by (simp_all add: arange_10)
  show "combine_price_action_factors L df = Inl ValueError" if "\<not> broadcasts_one L"
  proof -
    have "linregress L (arange 10) (tail 10 (map high df)) = Inl ValueError"
      using linregress_one_element [OF len(1) _ that, of "arange 10"] by (simp add: length_arange)
    then show ?thesis using ne
      by (simp add: combine_price_action_factors_def detect_trendline_def
          calculate_support_resistance_def identify_zones_def column_def Let_def)
  qed
  show "\<exists>r. combine_price_action_factors L df = Inr r" if "broadcasts_one L"
  proof -
    have "\<exists>a. linregress L (arange 10) y = Inr a" if "length y = 1" for y
      using that x \<open>broadcasts_one L\<close> by (auto simp: linregress_def length_arange)
    then obtain a b where "linregress L (arange 10) (tail 10 (map high df)) = Inr a"
      "linregress L (arange 10) (tail 10 (map low df)) = Inr b"
      using len by blast
    then show ?thesis using ne
      by (simp add: combine_price_action_factors_def detect_trendline_def
          calculate_support_resistance_def identify_zones_def column_def iloc_last_def Let_def)
  qed
qed

lemma detect_trendline_long:
  assumes "length df \<ge> 10"
  shows "\<exists>a b. detect_trendline L df = Inr (a, b)"
proof -
  have ne: "df \<noteq> []" using assms by auto
  obtain a where a: "linregress L (arange 10) (tail 10 (map high df)) = Inr a"
    using linregress_arange_10 [of "tail 10 (map high df)"] assms by (auto simp: length_tail)
  obtain b where b: "linregress L (arange 10) (tail 10 (map low df)) = Inr b"
    using linregress_arange_10 [of "tail 10 (map low df)"] assms by (auto simp: length_tail)
  show ?thesis using ne a b by (simp add: detect_trendline_def column_def Let_def)
qed

lemma score_le_8: "score c lo hi b h s1 s2 \<le> 8"
  by (simp add: score_def)

lemma confidence_le_8: "confidence L df = Inr k \<Longrightarrow> k \<le> 8"
  by (auto simp: confidence_def score_le_8 split: sum.splits prod.splits)

text \<open>From ten rows on the detector returns, with a confidence of at most 8.\<close>

lemma confidence_defined:
  assumes "length df \<ge> 10"
  shows "\<exists>k. confidence L df = Inr k \<and> k \<le> 8"
proof -
  have ne: "df \<noteq> []" using assms by auto
  obtain a b where "detect_trendline L df = Inr (a, b)"
    using detect_trendline_long [OF assms] by blast
  then have "\<exists>k. confidence L df = Inr k" using ne
    by (simp add: confidence_def calculate_support_resistance_def identify_zones_def
        column_def iloc_last_def)
  then show ?thesis using confidence_le_8 by blast
qed

lemma short_window_factors:
  "length df < 20 \<Longrightarrow> detect_breakout df = None"
  "length df < 7 \<Longrightarrow> detect_head_shoulders df = None"
  by (simp_all add: detect_breakout_def detect_head_shoulders_def)

text \<open>
  X1. From ten rows on the detector returns: the confidence is computed and is at most
  8, and below 20 rows the breakout factor is absent.
\<close>

theorem detector_returns_from_ten_rows:
  assumes "length df \<ge> 10"
  shows "(\<exists>k. confidence L df = Inr k \<and> k \<le> 8)
     \<and> (\<exists>r. combine_price_action_factors L df = Inr r)
     \<and> (length df < 20 \<longrightarrow> detect_breakout df = None)"
proof -
  obtain k where k: "confidence L df = Inr k" "k \<le> 8"
    using confidence_defined [OF assms] by blast
  then have "\<exists>r. combine_price_action_factors L df = Inr r"
    by (simp add: combine_by_confidence)
  with k show ?thesis by (auto simp: short_window_factors)
qed

theorem detector_returns_from_ten_rows_witness:
  "length (window_rising 110) \<ge> 10 \<and> length (window_rising 110) < 20
   \<and> confidence sample_lib (window_rising 110) = Inr 6
   \<and> detect_breakout (window_rising 110) = None"
proof -
  have l: "length (window_rising 110) \<ge> 10" "length (window_rising 110) < 20"
    by (simp_all add: window_rising_def)
  show ?thesis
    using detector_returns_from_ten_rows [OF l(1), where L = sample_lib] l window_rising_inside(2) by simp
qed

text \<open>
  C3. The claim is that the detector runs to completion on every non-empty window of
  fewer than 20 rows. On a window of two rows it does not, whatever the library
  version: \<^verbatim>\<open>detect_trendline\<close> has no length guard, \<^verbatim>\<open>linregress\<close> is given ten
  abscissae and two ordinates and raises \<^verbatim>\<open>ValueError\<close>, and neither a confidence nor a
  result is computed.
\<close>

theorem detect_fails_on_two_rows:
  "combine_price_action_factors L [row 129 101 110, row 130 100 110] = Inl ValueError
   \<and> confidence L [row 129 101 110, row 130 100 110] = Inl ValueError
   \<and> detect_trendline L [row 129 101 110, row 130 100 110] = Inl ValueError"
  by (simp add: combine_short detect_trendline_short)

lemma support_le_resistance:
  assumes "\<exists>c \<in> set (tail 20 df). low c \<le> high c"
  shows "support_of df \<le> resistance_of df"
proof -
  from assms obtain c where c: "c \<in> set (tail 20 df)" "low c \<le> high c" by blast
  have "Min (set (tail 20 (map low df))) \<le> low c"
    using c(1) by (simp add: tail_map)
  moreover have "high c \<le> Max (set (tail 20 (map high df)))"
    using c(1) by (simp add: tail_map)
  ultimately show ?thesis using c(2) by (simp add: support_of_def resistance_of_def)
qed

text \<open>
  C9, as stated, fails: on rows whose lows lie above their highs the detector returns a
  LONG signal with support 11 above resistance 10, so its stop is above its target.
\<close>

theorem crossed_band_counterexample:
  "combine_price_action_factors sample_lib window_crossed
     = Inr (Some \<lparr>sig_type = LONG, entry = 12, sl = 11, tp = 10\<rparr>)
   \<and> support_of window_crossed = 11 \<and> resistance_of window_crossed = 10
   \<and> \<not> support_of window_crossed \<le> resistance_of window_crossed
   \<and> \<not> sl \<lparr>sig_type = LONG, entry = 12, sl = 11, tp = 10\<rparr>
         \<le> tp \<lparr>sig_type = LONG, entry = 12, sl = 11, tp = 10\<rparr>"
  by code_simp

text \<open>
  C9, amended. On every window for which a signal is returned, the target of a LONG
  signal is strictly below its entry and the target of a SHORT signal strictly above its
  entry. If moreover one of the last 20 rows has its low at or below its high, then
  support is at most resistance, a LONG signal has stop \<open>\<le>\<close> target \<open><\<close> entry and a
  SHORT signal has entry \<open><\<close> target \<open>\<le>\<close> stop.
\<close>

theorem signal_price_order:
  assumes "combine_price_action_factors L df = Inr (Some s)"
  shows "(sig_type s = LONG \<longrightarrow> tp s < entry s)
     \<and> (sig_type s = SHORT \<longrightarrow> entry s < tp s)
     \<and> ((\<exists>c \<in> set (tail 20 df). low c \<le> high c) \<longrightarrow>
          support_of df \<le> resistance_of df
          \<and> (sig_type s = LONG \<longrightarrow> sl s \<le> tp s \<and> tp s < entry s)
          \<and> (sig_type s = SHORT \<longrightarrow> entry s < tp s \<and> tp s \<le> sl s))"
proof -
  from assms obtain k where k: "confidence L df = Inr k"
    and e: "emit k (close (last df)) (support_of df) (resistance_of df) = Some s"
    by (auto simp: combine_by_confidence split: sum.splits)
  from e have cases: "(close (last df) > resistance_of df
        \<and> s = \<lparr>sig_type = LONG, entry = close (last df), sl = support_of df, tp = resistance_of df\<rparr>)
      \<or> (close (last df) < support_of df
        \<and> s = \<lparr>sig_type = SHORT, entry = close (last df), sl = resistance_of df, tp = support_of df\<rparr>)"
    by (auto simp: emit_Some)
  have band: "(\<exists>c \<in> set (tail 20 df). low c \<le> high c) \<longrightarrow> support_of df \<le> resistance_of df"
    using support_le_resistance [of df] by blast
  from cases band show ?thesis by fastforce
qed

theorem signal_price_order_witness:
  "combine_price_action_factors sample_lib (window_rising 132)
     = Inr (Some \<lparr>sig_type = LONG, entry = 132, sl = 100, tp = 130\<rparr>)
   \<and> combine_price_action_factors sample_lib (window_rising 68)
     = Inr (Some \<lparr>sig_type = SHORT, entry = 68, sl = 130, tp = 100\<rparr>)
   \<and> (\<exists>c \<in> set (tail 20 (window_rising 132)). low c \<le> high c)
   \<and> (\<exists>c \<in> set (tail 20 (window_rising 68)). low c \<le> high c)
   \<and> support_of (window_rising 132) \<le> resistance_of (window_rising 132)
   \<and> support_of (window_rising 68) \<le> resistance_of (window_rising 68)"
proof -
  have w: "\<exists>c \<in> set (tail 20 (window_rising 132)). low c \<le> high c"
    "\<exists>c \<in> set (tail 20 (window_rising 68)). low c \<le> high c"
    by (simp_all add: window_rising_def tail_def row_def)
  show ?thesis
    using signal_price_order [OF window_rising_long(1)] signal_price_order [OF window_rising_short(1)]
      w window_rising_long(1) window_rising_short(1)
    by simp
qed

section \<open>The alert gate\<close>

lemma sample_key: "dedup_key sample_lib ''frxXAUUSD'' 5 sample_signal = ''frxXAUUSD_5_LONG_132.00''"
  by code_simp

lemma timedelta_seconds_small:
  assumes "0 \<le> d" "d < 1500 * 1000000"
  shows "timedelta_seconds d = d div 1000000" "timedelta_seconds d < 1500"
proof -
  have a: "0 \<le> d div 1000000" using assms by simp
  have b: "d div 1000000 < 1500" using assms by simp
  show "timedelta_seconds d = d div 1000000"
    using a b by (simp add: timedelta_seconds_def)
  then show "timedelta_seconds d < 1500" using b by simp
qed

text \<open>Within 25 minutes of the recorded time the alert is suppressed and nothing changes.\<close>

lemma send_alert_suppressed:
  assumes "sent_signals st (dedup_key L pair tf s) = Some t"
    and "t \<le> now" and "real_of_int (now - t) < RATE_LIMIT_MINUTES * 60000000"
  shows "send_alert L now tg_ok st pair tf s = (st, [])"
proof -
  have "now - t < 1500 * 1000000"
    using assms(3) by (simp add: RATE_LIMIT_MINUTES_def)
  then have "timedelta_seconds (now - t) < 1500"
    using assms(2) timedelta_seconds_small(2) [of "now - t"] by simp
  then show ?thesis
    using assms(1) by (simp add: send_alert_def Let_def RATE_LIMIT_MINUTES_def)
qed

lemma send_alert_first:
  assumes "sent_signals st (dedup_key L pair tf s) = None"
  shows "send_alert L now tg_ok st pair tf s =
     (st\<lparr>sent_signals := (sent_signals st)(dedup_key L pair tf s \<mapsto> now)\<rparr>,
      if tg_ok then [TelegramAlert pair tf s] else [TelegramAlert pair tf s, LogError TelegramError])"
  using assms by (simp add: send_alert_def Let_def)

text \<open>From 25 minutes up to one day after the recorded time the alert goes out.\<close>

lemma send_alert_allowed_same_day:
  assumes "sent_signals st (dedup_key L pair tf s) = Some t"
    and "RATE_LIMIT_MINUTES * 60000000 \<le> real_of_int (now - t)" and "now - t < 86400 * 1000000"
  shows "send_alert L now tg_ok st pair tf s =
     (st\<lparr>sent_signals := (sent_signals st)(dedup_key L pair tf s \<mapsto> now)\<rparr>,
      if tg_ok then [TelegramAlert pair tf s] else [TelegramAlert pair tf s, LogError TelegramError])"
proof -
  have lo: "1500 * 1000000 \<le> now - t"
    using assms(2) by (simp add: RATE_LIMIT_MINUTES_def)
  then have a: "1500 \<le> (now - t) div 1000000" by simp
  have b: "(now - t) div 1000000 < 86400" using assms(3) by simp
  have "timedelta_seconds (now - t) = (now - t) div 1000000"
    using a b by (simp add: timedelta_seconds_def)
  then have "\<not> timedelta_seconds (now - t) < 1500" using a by simp
  then show ?thesis
    using assms(1) by (simp add: send_alert_def Let_def RATE_LIMIT_MINUTES_def)
qed

lemma st_sent_eq:
  "st_sent = init\<lparr>sent_signals := (sent_signals init)(dedup_key sample_lib ''frxXAUUSD'' 5 sample_signal \<mapsto> t0)\<rparr>"
  by (simp add: st_sent_def send_alert_first init_def)

text \<open>Scenario C of the specification: suppressed after 10 minutes, sent after 26.\<close>

lemma scenario_c:
  "send_alert sample_lib (t0 + 600 * 1000000) True st_sent ''frxXAUUSD'' 5 sample_signal = (st_sent, [])"
  "snd (send_alert sample_lib (t0 + 1560 * 1000000) True st_sent ''frxXAUUSD'' 5 sample_signal)
     = [TelegramAlert ''frxXAUUSD'' 5 sample_signal]"
  by (simp_all add: st_sent_eq send_alert_def Let_def timedelta_seconds_def RATE_LIMIT_MINUTES_def)

text \<open>
  X2. Less than one day after the recorded time of a key the gate works as a 25-minute
  limit: before 25 minutes the alert is suppressed and the state unchanged, from 25
  minutes on it is attempted and the record is set to the time of the attempt.
\<close>

theorem gate_within_one_day:
  assumes "sent_signals st (dedup_key L pair tf s) = Some t"
    and "t \<le> now" and "now - t < 86400 * 1000000"
  shows "(real_of_int (now - t) < RATE_LIMIT_MINUTES * 60000000 \<longrightarrow>
            send_alert L now tg_ok st pair tf s = (st, []))
     \<and> (RATE_LIMIT_MINUTES * 60000000 \<le> real_of_int (now - t) \<longrightarrow>
            fst (send_alert L now tg_ok st pair tf s)
              = st\<lparr>sent_signals := (sent_signals st)(dedup_key L pair tf s \<mapsto> now)\<rparr>
            \<and> TelegramAlert pair tf s \<in> set (snd (send_alert L now tg_ok st pair tf s)))"
  using send_alert_suppressed [OF assms(1,2), of tg_ok]
    send_alert_allowed_same_day [OF assms(1) _ assms(3), of tg_ok]
  by auto

theorem gate_within_one_day_witness:
  "send_alert sample_lib (t0 + 600 * 1000000) True st_sent ''frxXAUUSD'' 5 sample_signal = (st_sent, [])
   \<and> TelegramAlert ''frxXAUUSD'' 5 sample_signal
       \<in> set (snd (send_alert sample_lib (t0 + 1560 * 1000000) True st_sent ''frxXAUUSD'' 5 sample_signal))"
proof -
  have r: "sent_signals st_sent (dedup_key sample_lib ''frxXAUUSD'' 5 sample_signal) = Some t0"
    by (simp add: st_sent_eq)
  have a: "t0 \<le> t0 + 600 * 1000000" "(t0 + 600 * 1000000) - t0 < 86400 * 1000000"
    "real_of_int ((t0 + 600 * 1000000) - t0) < RATE_LIMIT_MINUTES * 60000000"
    by (simp_all add: RATE_LIMIT_MINUTES_def)
  have b: "t0 \<le> t0 + 1560 * 1000000" "(t0 + 1560 * 1000000) - t0 < 86400 * 1000000"
    "RATE_LIMIT_MINUTES * 60000000 \<le> real_of_int ((t0 + 1560 * 1000000) - t0)"
    by (simp_all add: RATE_LIMIT_MINUTES_def)
  from gate_within_one_day [OF r a(1,2), of True] gate_within_one_day [OF r b(1,2), of True] a(3) b(3)
  show ?thesis by blast
qed

text \<open>
  C2. The claim is that an identical signal is let through whenever at least 25 minutes
  have passed since it was last sent, gaps of more than a day included. Line 87 reads
  \<^verbatim>\<open>timedelta.seconds\<close>, which leaves the whole days out: one day and ten minutes
  (87000 seconds) after the first alert the same signal is suppressed and the state is
  unchanged.
\<close>

theorem gate_suppresses_after_one_day:
  "sent_signals st_sent (dedup_key sample_lib ''frxXAUUSD'' 5 sample_signal) = Some t0
   \<and> RATE_LIMIT_MINUTES * 60000000 \<le> real_of_int ((t0 + 87000 * 1000000) - t0)
   \<and> send_alert sample_lib (t0 + 87000 * 1000000) True st_sent ''frxXAUUSD'' 5 sample_signal
       = (st_sent, [])"
  by (simp add: st_sent_eq send_alert_def Let_def timedelta_seconds_def RATE_LIMIT_MINUTES_def)

text \<open>
  C10. When a signal passes the gate and its delivery fails, the failure is logged, the
  state is the one a successful delivery leaves, the record of the key holds the time of
  the attempt, and a signal with the same key that arrives within the next 25 minutes is
  suppressed.
\<close>

theorem failed_delivery_consumes_slot:
  assumes pass: "snd (send_alert L now False st pair tf s) \<noteq> []"
    and same: "dedup_key L pair tf s' = dedup_key L pair tf s"
    and later: "now \<le> now'" "real_of_int (now' - now) < RATE_LIMIT_MINUTES * 60000000"
  shows "snd (send_alert L now False st pair tf s) = [TelegramAlert pair tf s, LogError TelegramError]
     \<and> fst (send_alert L now False st pair tf s) = fst (send_alert L now True st pair tf s)
     \<and> sent_signals (fst (send_alert L now False st pair tf s)) (dedup_key L pair tf s) = Some now
     \<and> send_alert L now' tg_ok (fst (send_alert L now False st pair tf s)) pair tf s'
         = (fst (send_alert L now False st pair tf s), [])"
proof -
  let ?st' = "st\<lparr>sent_signals := (sent_signals st)(dedup_key L pair tf s \<mapsto> now)\<rparr>"
  have f: "send_alert L now False st pair tf s = (?st', [TelegramAlert pair tf s, LogError TelegramError])"
    using pass by (auto simp: send_alert_def Let_def split: option.splits if_splits)
  have t: "fst (send_alert L now True st pair tf s) = ?st'"
    using pass by (auto simp: send_alert_def Let_def split: option.splits if_splits)
  have rec: "sent_signals ?st' (dedup_key L pair tf s') = Some now"
    using same by simp
  have "send_alert L now' tg_ok ?st' pair tf s' = (?st', [])"
    using send_alert_suppressed [OF rec later] .
  then show ?thesis using f t by simp
qed

theorem failed_delivery_consumes_slot_witness:
  "snd (send_alert sample_lib t0 False init ''frxXAUUSD'' 5 sample_signal) \<noteq> []
   \<and> t0 \<le> t0 + 600 * 1000000
   \<and> real_of_int ((t0 + 600 * 1000000) - t0) < RATE_LIMIT_MINUTES * 60000000
   \<and> send_alert sample_lib (t0 + 600 * 1000000) True
        (fst (send_alert sample_lib t0 False init ''frxXAUUSD'' 5 sample_signal))
        ''frxXAUUSD'' 5 sample_signal
      = (fst (send_alert sample_lib t0 False init ''frxXAUUSD'' 5 sample_signal), [])"
proof -
  have p: "snd (send_alert sample_lib t0 False init ''frxXAUUSD'' 5 sample_signal) \<noteq> []"
    by (simp add: send_alert_first init_def)
  have l: "t0 \<le> t0 + 600 * 1000000"
    "real_of_int ((t0 + 600 * 1000000) - t0) < RATE_LIMIT_MINUTES * 60000000"
    by (simp_all add: RATE_LIMIT_MINUTES_def)
  from failed_delivery_consumes_slot [OF p refl l, of True] p l show ?thesis
    by blast
qed

section \<open>The rolling series\<close>

lemma length_concat_tail: "length (concat_tail df r) \<le> 100"
  by (simp add: concat_tail_def length_tail)

lemma concat_tail_full: "length df = 100 \<Longrightarrow> concat_tail df r = tl df @ [r]"
  by (cases df) (simp_all add: concat_tail_def tail_def)

lemma concat_tail_room: "length df < 100 \<Longrightarrow> concat_tail df r = df @ [r]"
  by (simp add: concat_tail_def tail_def)

lemma tail_tail_append: "tail n (tail n xs @ ys) = tail n (xs @ ys)"
proof -
  have "length xs + length ys - (length xs - n + n) + (length xs - n) = length xs + length ys - n"
    by arith
  then show ?thesis by (auto simp: tail_def)
qed

lemma foldl_concat_tail: "foldl concat_tail (tail 100 df) rows = tail 100 (df @ rows)"
proof (induction rows arbitrary: df)
  case Nil
  then show ?case by simp
next
  case (Cons r rows)
  have "foldl concat_tail (tail 100 df) (r # rows) = foldl concat_tail (tail 100 (tail 100 df @ [r])) rows"
    by (simp add: concat_tail_def)
  also have "\<dots> = foldl concat_tail (tail 100 (df @ [r])) rows"
    by (simp only: tail_tail_append)
  also have "\<dots> = tail 100 ((df @ [r]) @ rows)"
    by (rule Cons.IH)
  finally show ?case by simp
qed

section \<open>Feed events\<close>

lemma send_alert_data: "data (fst (send_alert L now tg_ok st pair tf s)) = data st"
  by (simp add: send_alert_def Let_def)

lemma send_alert_dataD: "send_alert L now tg_ok st pair tf s = (st', acts) \<Longrightarrow> data st' = data st"
  using send_alert_data [of L now tg_ok st pair tf s] by simp

text \<open>
  The only change a message makes to the series: the row of an accepted event is appended
  to the series of its key.
\<close>

lemma on_message_data:
  "data (fst (on_message L now tg_ok st m)) =
     (case normalizer L m of
        Inr (Some (pair, tf, r)) \<Rightarrow>
          (case data st (pair, tf) of
             Some df \<Rightarrow> (data st)((pair, tf) \<mapsto> concat_tail df r)
           | None \<Rightarrow> data st)
      | _ \<Rightarrow> data st)"
  by (auto simp: on_message_def on_message_try_def Let_def
      split: sum.splits option.splits prod.splits dest!: send_alert_dataD)

lemma on_message_bounded: "bounded st \<Longrightarrow> bounded (fst (on_message L now tg_ok st m))"
  unfolding bounded_def on_message_data
  by (auto simp: length_concat_tail split: sum.splits option.splits prod.splits)

text \<open>An accepted event names a configured pair and a configured timeframe.\<close>

lemma normalizer_subscribed:
  assumes "normalizer L m = Inr (Some (pair, tf, r))"
  shows "pair \<in> set PAIRS \<and> tf \<in> set TIMEFRAMES"
  using assms
  by (auto simp: normalizer_def Let_def split: sum.splits if_splits json.splits)









text \<open>
  X3. An \<^verbatim>\<open>ohlc\<close> event whose symbol is not one of the configured pairs, or whose
  granularity divided by 60 (rounded down) is not one of the configured timeframes, yields
  no candle; the handler returns at once, the state unchanged, and does nothing else.
\<close>

theorem unsubscribed_event_rejected:
  assumes "subscript d ''ohlc'' = Inr ohlc"
    and "subscript ohlc ''symbol'' = Inr symbol" and "subscript ohlc ''granularity'' = Inr g"
    and "py_int L g = Inr gi"
    and "symbol \<notin> set (map JStr PAIRS) \<or> gi div 60 \<notin> set TIMEFRAMES"
  shows "normalizer L (Inr d) = Inr None \<and> on_message L now tg_ok st (Inr d) = (st, [])"
proof -
  from assms(1) obtain kvs where d: "d = JObj kvs"
    by (cases d) (auto simp: subscript_def)
  with assms(1) have "map_of (rev kvs) ''ohlc'' = Some ohlc"
    by (auto simp: subscript_def split: option.splits)
  then have "''ohlc'' \<in> fst ` set kvs"
    using map_of_SomeD [of "rev kvs" "''ohlc''" ohlc] by force
  then have "py_in ''ohlc'' d = Inr True" using d by (simp add: py_in_def)
  then have n: "normalizer L (Inr d) = Inr None"
    using assms by (auto simp: normalizer_def Let_def)
  then show ?thesis by (simp add: on_message_def on_message_try_def)
qed

theorem unsubscribed_event_rejected_witness:
  "normalizer sample_lib (ohlc_event ''R_75'' 120 (JStr ''110.0'')) = Inr None
   \<and> on_message sample_lib t0 True st_history (ohlc_event ''R_75'' 120 (JStr ''110.0'')) = (st_history, [])
   \<and> normalizer sample_lib (ohlc_event ''R_100'' 60 (JStr ''110.0'')) = Inr None"
proof -
  define ev where "ev = (\<lambda>symbol granularity.
     JObj [(''symbol'', JStr symbol), (''granularity'', JInt granularity),
           (''epoch'', JInt 1700000000), (''open'', JStr ''110.0''),
           (''high'', JStr ''130.0''), (''low'', JStr ''100.0''), (''close'', JStr ''110.0'')])"
  have e: "ohlc_event symbol g (JStr ''110.0'') = Inr (JObj [(''ohlc'', ev symbol g)])" for symbol g
    by (simp add: ohlc_event_def ev_def)
  have s: "subscript (JObj [(''ohlc'', ev symbol g)]) ''ohlc'' = Inr (ev symbol g)"
    "subscript (ev symbol g) ''symbol'' = Inr (JStr symbol)"
    "subscript (ev symbol g) ''granularity'' = Inr (JInt g)"
    "py_int sample_lib (JInt g) = Inr g" for symbol g
    by (simp_all add: subscript_def ev_def py_int_def)
  have h: "JStr ''R_75'' \<notin> set (map JStr PAIRS) \<or> (120 :: int) div 60 \<notin> set TIMEFRAMES"
    "JStr ''R_100'' \<notin> set (map JStr PAIRS) \<or> (60 :: int) div 60 \<notin> set TIMEFRAMES"
    by (simp_all add: PAIRS_def TIMEFRAMES_def)
  show ?thesis
    using unsubscribed_event_rejected [OF s h(1), of t0 True st_history]
      unsubscribed_event_rejected [OF s h(2), of t0 True st_history]
    by (simp add: e)
qed

lemma sample_one_row:
  "normalizer (sample_lib\<lparr>broadcasts_one := True\<rparr>) (ohlc_event ''R_75'' 90 (JStr ''110.0''))
     = Inr (Some (''R_75'', 1, \<lparr>time = 1700000000, opn = 110, high = 130, low = 100, close = 110\<rparr>))"
  "normalizer (sample_lib\<lparr>broadcasts_one := False\<rparr>) (ohlc_event ''R_75'' 90 (JStr ''110.0''))
     = Inr (Some (''R_75'', 1, \<lparr>time = 1700000000, opn = 110, high = 130, low = 100, close = 110\<rparr>))"
  "combine_price_action_factors (sample_lib\<lparr>broadcasts_one := True\<rparr>)
     [\<lparr>time = 1700000000, opn = 110, high = 130, low = 100, close = 110\<rparr>] = Inr None"
  "combine_price_action_factors (sample_lib\<lparr>broadcasts_one := False\<rparr>)
     [\<lparr>time = 1700000000, opn = 110, high = 130, low = 100, close = 110\<rparr>] = Inl ValueError"
  by code_simp+

text \<open>
  C6. The claim is that an event whose timeframe is not configured, such as one with a
  granularity of 90 seconds, is rejected. Line 133 divides the granularity by 60 and
  drops the remainder, so 90 seconds count as the 1-minute timeframe: the event yields a
  candle, the candle is appended to the 1-minute series of its symbol, and the detector
  runs on that series (on its single row it returns or raises, as the library has it).
\<close>

theorem granularity_90_accepted:
  "normalizer (sample_lib\<lparr>broadcasts_one := b\<rparr>) (ohlc_event ''R_75'' 90 (JStr ''110.0''))
     = Inr (Some (''R_75'', 1, \<lparr>time = 1700000000, opn = 110, high = 130, low = 100, close = 110\<rparr>))
   \<and> data (fst (on_message (sample_lib\<lparr>broadcasts_one := b\<rparr>) t0 True init
                  (ohlc_event ''R_75'' 90 (JStr ''110.0''))))
        (''R_75'', 1)
     = Some [\<lparr>time = 1700000000, opn = 110, high = 130, low = 100, close = 110\<rparr>]
   \<and> snd (on_message (sample_lib\<lparr>broadcasts_one := b\<rparr>) t0 True init
             (ohlc_event ''R_75'' 90 (JStr ''110.0'')))
     = (if b then [Detect ''R_75'' 1] else [Detect ''R_75'' 1, LogError ValueError])"
proof -
  let ?L = "sample_lib\<lparr>broadcasts_one := b\<rparr>"
  let ?r = "\<lparr>time = 1700000000, opn = 110, high = 130, low = 100, close = 110\<rparr>"
  have n: "normalizer ?L (ohlc_event ''R_75'' 90 (JStr ''110.0'')) = Inr (Some (''R_75'', 1, ?r))"
    by (cases b) (simp_all add: sample_one_row)
  have d: "data init (''R_75'', 1) = Some []"
    by (simp add: init_def PAIRS_def TIMEFRAMES_def)
  have t: "concat_tail [] ?r = [?r]"
    by (simp add: concat_tail_def tail_def)
  have c: "combine_price_action_factors ?L [?r] = (if b then Inr None else Inl ValueError)"
    by (cases b) (simp_all add: sample_one_row)
  show ?thesis
    by (simp add: on_message_def on_message_try_def n d t c Let_def)
qed

theorem granularity_90_accepted_witness:
  "(90 :: int) div 60 \<in> set TIMEFRAMES
   \<and> JStr ''R_75'' \<in> set (map JStr PAIRS)
   \<and> (\<exists>x. normalizer sample_lib (ohlc_event ''R_75'' 90 (JStr ''110.0'')) = Inr (Some x))"
proof -
  have "sample_lib\<lparr>broadcasts_one := False\<rparr> = sample_lib"
    by (simp add: sample_lib_def)
  then show ?thesis
    using granularity_90_accepted [of False] by (simp add: TIMEFRAMES_def PAIRS_def)
qed

section \<open>Connection life cycle\<close>

lemma on_open_frame:
  "data (fst (snd (on_open st ws_ok tg_ok))) = data st"
  "sent_signals (fst (snd (on_open st ws_ok tg_ok))) = sent_signals st"
  "active (fst (snd (on_open st ws_ok tg_ok))) = active st"
  by (simp_all add: on_open_def Let_def split: prod.splits)

lemma dispatch_frame:
  assumes "\<not> is_message ev"
  shows "data (fst (dispatch L st ev)) = data st"
    "sent_signals (fst (dispatch L st ev)) = sent_signals st"
    "active (fst (dispatch L st ev)) = active st"
proof -
  have o: "data (fst (dispatch L st (EvOpen w t))) = data st
      \<and> sent_signals (fst (dispatch L st (EvOpen w t))) = sent_signals st
      \<and> active (fst (dispatch L st (EvOpen w t))) = active st" for w t
    using on_open_frame [of st w t]
    by (cases "on_open st w t") (auto simp: dispatch_def on_error_def split: option.splits)
  show "data (fst (dispatch L st ev)) = data st"
    "sent_signals (fst (dispatch L st ev)) = sent_signals st"
    "active (fst (dispatch L st ev)) = active st"
    using assms o by (cases ev; simp add: dispatch_def on_error_def on_close_def)+
qed

lemma run_forever_frame:
  assumes "\<forall>ev \<in> set evs. \<not> is_message ev"
  shows "data (fst (run_forever L st evs)) = data st
     \<and> sent_signals (fst (run_forever L st evs)) = sent_signals st
     \<and> active (fst (run_forever L st evs)) = active st"
  using assms
proof (induction evs arbitrary: st)
  case Nil
  then show ?case by simp
next
  case (Cons ev evs)
  then have ev: "\<not> is_message ev" and rest: "\<forall>e \<in> set evs. \<not> is_message e" by auto
  obtain st' acts where d: "dispatch L st ev = (st', acts)" by (cases "dispatch L st ev")
  have "data st' = data st" "sent_signals st' = sent_signals st" "active st' = active st"
    using dispatch_frame [OF ev, of L st] d by simp_all
  with Cons.IH [OF rest, of st'] d show ?case
    by (cases "run_forever L st' evs") simp
qed

text \<open>
  C8. Over any run of connections in which the transport delivers no message (each
  opened, hit by errors, closed, or ended by an exception, then replaced by the next),
  every series is what it was before, and so is every dedup record; and each of
  \<^verbatim>\<open>on_close\<close>, \<^verbatim>\<open>on_error\<close> and \<^verbatim>\<open>on_open\<close> leaves the series untouched.
\<close>

theorem reconnect_preserves_series:
  assumes "\<forall>(evs, crashed) \<in> set sessions. \<forall>ev \<in> set evs. \<not> is_message ev"
  shows "data (fst (ws_thread L st sessions)) = data st
     \<and> sent_signals (fst (ws_thread L st sessions)) = sent_signals st
     \<and> data (fst (on_close st)) = data st
     \<and> data (fst (on_error st)) = data st
     \<and> data (fst (snd (on_open st ws_ok tg_ok))) = data st"
proof -
  have "data (fst (ws_thread L st sessions)) = data st
     \<and> sent_signals (fst (ws_thread L st sessions)) = sent_signals st"
    using assms
  proof (induction sessions arbitrary: st)
    case Nil
    then show ?case by simp
  next
    case (Cons x sessions)
    obtain evs crashed where x: "x = (evs, crashed)" by (cases x)
    from Cons.prems x have evs: "\<forall>ev \<in> set evs. \<not> is_message ev"
      and rest: "\<forall>(evs, crashed) \<in> set sessions. \<forall>ev \<in> set evs. \<not> is_message ev"
      by auto
    show ?case
    proof (cases "active st")
      case False
      then show ?thesis using x by simp
    next
      case True
      obtain st' acts where r: "run_forever L (st\<lparr>ws := Suc (ws st)\<rparr>) evs = (st', acts)"
        by (cases "run_forever L (st\<lparr>ws := Suc (ws st)\<rparr>) evs")
      have "data st' = data st" "sent_signals st' = sent_signals st"
        using run_forever_frame [OF evs, of L "st\<lparr>ws := Suc (ws st)\<rparr>"] r by simp_all
      with Cons.IH [OF rest, of st'] r True x show ?thesis
        by (cases "ws_thread L st' sessions") simp
    qed
  qed
  then show ?thesis
    by (simp add: on_close_def on_error_def on_open_frame)
qed

theorem reconnect_preserves_series_witness:
  "data (fst (ws_thread sample_lib st_history sample_sessions)) (''R_75'', 1)
       = Some (window_rising 110)
   \<and> ws (fst (ws_thread sample_lib st_history sample_sessions)) = 2"
proof -
  have h: "\<forall>(evs, crashed) \<in> set sample_sessions. \<forall>ev \<in> set evs. \<not> is_message ev"
    by (simp add: sample_sessions_def)
  have d: "data st_history (''R_75'', 1) = Some (window_rising 110)"
    by (simp add: st_history_def)
  have w: "ws (fst (ws_thread sample_lib st_history sample_sessions)) = 2"
    by (simp add: sample_sessions_def st_history_def init_def dispatch_def on_open_def on_error_def
        on_close_def Let_def subscriptions_def PAIRS_def TIMEFRAMES_def split: prod.splits)
  show ?thesis
    using reconnect_preserves_series [OF h, of sample_lib st_history] d w by simp
qed

section \<open>The series over a run of the client\<close>

lemma bounded_init: "bounded init"
  by (auto simp: bounded_def init_def split: if_splits)

lemma dispatch_bounded: "bounded st \<Longrightarrow> bounded (fst (dispatch L st ev))"
proof (cases "is_message ev")
  case True
  assume b: "bounded st"
  from True obtain m now tg_ok where "ev = EvMessage m now tg_ok" by (cases ev) auto
  then show ?thesis using on_message_bounded [OF b] by (simp add: dispatch_def)
next
  case False
  assume "bounded st"
  then show ?thesis using dispatch_frame(1) [OF False, of L st] by (simp add: bounded_def)
qed

lemma run_forever_bounded: "bounded st \<Longrightarrow> bounded (fst (run_forever L st evs))"
proof (induction evs arbitrary: st)
  case Nil
  then show ?case by simp
next
  case (Cons ev evs)
  obtain st' acts where d: "dispatch L st ev = (st', acts)" by (cases "dispatch L st ev")
  then have "bounded st'" using dispatch_bounded [OF Cons.prems, of L ev] by simp
  from Cons.IH [OF this] d show ?case
    by (cases "run_forever L st' evs") simp
qed

lemma ws_thread_bounded: "bounded st \<Longrightarrow> bounded (fst (ws_thread L st sessions))"
proof (induction sessions arbitrary: st)
  case Nil
  then show ?case by simp
next
  case (Cons x sessions)
  obtain evs crashed where x: "x = (evs, crashed)" by (cases x)
  show ?case
  proof (cases "active st")
    case False
    then show ?thesis using x Cons.prems by simp
  next
    case True
    obtain st' acts where r: "run_forever L (st\<lparr>ws := Suc (ws st)\<rparr>) evs = (st', acts)"
      by (cases "run_forever L (st\<lparr>ws := Suc (ws st)\<rparr>) evs")
    have "bounded (st\<lparr>ws := Suc (ws st)\<rparr>)" using Cons.prems by (simp add: bounded_def)
    then have "bounded st'" using run_forever_bounded [of "st\<lparr>ws := Suc (ws st)\<rparr>" L evs] r by simp
    from Cons.IH [OF this] r True x show ?thesis
      by (cases "ws_thread L st' sessions") simp
  qed
qed

text \<open>
  C4. After every append the series holds at most 100 rows; a series built by appends
  from the empty frame holds the last 100 rows appended, in the order they were
  appended; an append to a full series drops exactly its oldest row, and an append to a
  shorter one drops nothing. The handler of an accepted event stores exactly this append
  for the key of the event, and whatever the transport delivers, starting from the
  initial state, every stored series holds at most 100 rows.
\<close>

theorem rolling_series_bounded:
  "length (concat_tail df r) \<le> 100
   \<and> (\<forall>n. length (foldl concat_tail [] (take n rows)) \<le> 100)
   \<and> foldl concat_tail [] rows = drop (length rows - 100) rows
   \<and> (length df = 100 \<longrightarrow> concat_tail df r = tl df @ [r])
   \<and> (length df < 100 \<longrightarrow> concat_tail df r = df @ [r])
   \<and> (normalizer L m = Inr (Some (pair, tf, r)) \<and> data st (pair, tf) = Some df \<longrightarrow>
        data (fst (on_message L now tg_ok st m)) = (data st)((pair, tf) \<mapsto> concat_tail df r))
   \<and> bounded (fst (ws_thread L init sessions))"
proof -
  have f: "foldl concat_tail [] xs = tail 100 xs" for xs
    using foldl_concat_tail [of "[]" xs] by (simp add: tail_def)
  have a: "length (foldl concat_tail [] (take n rows)) \<le> 100" for n
    by (simp add: f length_tail)
  have b: "foldl concat_tail [] rows = drop (length rows - 100) rows"
    by (simp add: f tail_def)
  have c: "normalizer L m = Inr (Some (pair, tf, r)) \<and> data st (pair, tf) = Some df \<longrightarrow>
        data (fst (on_message L now tg_ok st m)) = (data st)((pair, tf) \<mapsto> concat_tail df r)"
    by (simp add: on_message_data)
  have d: "bounded (fst (ws_thread L init sessions))"
    using ws_thread_bounded [OF bounded_init] .
  from a b c d show ?thesis
    using length_concat_tail concat_tail_full concat_tail_room by blast
qed

lemma sample_event_normal:
  "normalizer sample_lib (ohlc_event ''R_75'' 60 (JStr ''110.0''))
     = Inr (Some (''R_75'', 1, \<lparr>time = 1700000000, opn = 110, high = 130, low = 100, close = 110\<rparr>))"
  by code_simp

theorem rolling_series_bounded_witness:
  "length (replicate 100 (row 1 1 1)) = 100
   \<and> concat_tail (replicate 100 (row 1 1 1)) (row 2 2 2) = tl (replicate 100 (row 1 1 1)) @ [row 2 2 2]
   \<and> length ([] :: frame) < 100
   \<and> concat_tail [] (row 2 2 2) = [row 2 2 2]
   \<and> normalizer sample_lib (ohlc_event ''R_75'' 60 (JStr ''110.0''))
     = Inr (Some (''R_75'', 1, \<lparr>time = 1700000000, opn = 110, high = 130, low = 100, close = 110\<rparr>))
   \<and> data st_history (''R_75'', 1) = Some (window_rising 110)
   \<and> data (fst (on_message sample_lib t0 True st_history (ohlc_event ''R_75'' 60 (JStr ''110.0''))))
        (''R_75'', 1)
     = Some (window_rising 110 @ [\<lparr>time = 1700000000, opn = 110, high = 130, low = 100, close = 110\<rparr>])"
proof -
  have d: "data st_history (''R_75'', 1) = Some (window_rising 110)"
    by (simp add: st_history_def)
  have l: "length (window_rising 110) < 100"
    by (simp add: window_rising_def)
  show ?thesis
    using rolling_series_bounded [of "replicate 100 (row 1 1 1)" "row 2 2 2" "[]"]
      rolling_series_bounded [of "[]" "row 2 2 2" "[]"]
      rolling_series_bounded [of "window_rising 110"
        "\<lparr>time = 1700000000, opn = 110, high = 130, low = 100, close = 110\<rparr>" "[]"
        sample_lib "ohlc_event ''R_75'' 60 (JStr ''110.0'')" "''R_75''" 1 st_history t0 True]
      sample_event_normal d l
    by simp
qed


end
